theory Spec2Isabelle
  imports Main
begin

section \<open>Text as the route handlers read it\<close>

text \<open>
  JavaScript strings are modelled as \<^typ>\<open>string\<close>, a character being a code unit from
  U+0000 to U+00FF; a string with a code unit above U+00FF is not a value of this type.
  White space is what \<open>String.prototype.trim\<close> and the regular expression class \<open>\s\<close>
  strip in that range: tab, line feed, vertical tab, form feed, carriage return, space and
  the no-break space U+00A0. Digits are what \<open>\d\<close> matches.
\<close>

definition is_space :: "char \<Rightarrow> bool" where
  "is_space c = (c = CHR 0x09 \<or> c = CHR 0x0A \<or> c = CHR 0x0B \<or> c = CHR 0x0C \<or> c = CHR 0x0D \<or> c = CHR 0x20
                 \<or> c = CHR 0xA0)"

definition js_trim :: "string \<Rightarrow> string" where
  "js_trim s = rev (dropWhile is_space (rev (dropWhile is_space s)))"

definition is_digit :: "char \<Rightarrow> bool" where
  "is_digit c = (48 \<le> (of_char c :: nat) \<and> (of_char c :: nat) \<le> 57)"

definition digit_val :: "char \<Rightarrow> int" where
  "digit_val c = int (of_char c) - 48"

text \<open>\<open>text.match(/\d+/)?.[0]\<close>: the first maximal run of digits, \<open>None\<close> when there is none.\<close>

definition match_digits :: "string \<Rightarrow> string option" where
  "match_digits t =
     (let d = takeWhile is_digit (dropWhile (\<lambda>c. \<not> is_digit c) t)
      in if d = [] then None else Some d)"

text \<open>
  \<open>parseInt\<close> on a string of decimal digits. JavaScript rounds a long run of digits to a
  double (or to \<open>Infinity\<close>); rounding is monotone and 100 is exact, so after the clamp to
  \<open>[1, 100]\<close> that follows the exact integer gives the same result.
\<close>

definition parseInt :: "string \<Rightarrow> int" where
  "parseInt ds = fold (\<lambda>c n. 10 * n + digit_val c) ds 0"

text \<open>
  \<open>toLowerCase\<close>: the letters \<open>A\<close> to \<open>Z\<close> and the capital letters U+00C0 to U+00DE (the
  multiplication sign U+00D7 is none) are replaced by their small letters, 32 places up;
  every other character of the range stays.
\<close>

definition upper_letters :: string where
  "upper_letters =
     ''ABCDEFGHIJKLMNOPQRSTUVWXYZ'' @
        [CHR 0xC0, CHR 0xC1, CHR 0xC2, CHR 0xC3, CHR 0xC4, CHR 0xC5, CHR 0xC6, CHR 0xC7,
         CHR 0xC8, CHR 0xC9, CHR 0xCA, CHR 0xCB, CHR 0xCC, CHR 0xCD, CHR 0xCE, CHR 0xCF,
         CHR 0xD0, CHR 0xD1, CHR 0xD2, CHR 0xD3, CHR 0xD4, CHR 0xD5, CHR 0xD6, CHR 0xD8,
         CHR 0xD9, CHR 0xDA, CHR 0xDB, CHR 0xDC, CHR 0xDD, CHR 0xDE]"

definition lower_letters :: string where
  "lower_letters =
     ''abcdefghijklmnopqrstuvwxyz'' @
        [CHR 0xE0, CHR 0xE1, CHR 0xE2, CHR 0xE3, CHR 0xE4, CHR 0xE5, CHR 0xE6, CHR 0xE7,
         CHR 0xE8, CHR 0xE9, CHR 0xEA, CHR 0xEB, CHR 0xEC, CHR 0xED, CHR 0xEE, CHR 0xEF,
         CHR 0xF0, CHR 0xF1, CHR 0xF2, CHR 0xF3, CHR 0xF4, CHR 0xF5, CHR 0xF6, CHR 0xF8,
         CHR 0xF9, CHR 0xFA, CHR 0xFB, CHR 0xFC, CHR 0xFD, CHR 0xFE]"

definition lower_char :: "char \<Rightarrow> char" where
  "lower_char c = (case map_of (zip upper_letters lower_letters) c of Some l \<Rightarrow> l | None \<Rightarrow> c)"

definition toLowerCase :: "string \<Rightarrow> string" where
  "toLowerCase s = map lower_char s"

text \<open>\<open>text.split(sep)\<close> for a one-character separator: the pieces between separators, empty ones kept.\<close>

fun js_split :: "char \<Rightarrow> string \<Rightarrow> string list" where
  "js_split sep [] = [[]]"
| "js_split sep (c # cs) =
     (if c = sep then [] # js_split sep cs
      else (case js_split sep cs of
              l # ls \<Rightarrow> (c # l) # ls
            | [] \<Rightarrow> [[c]]))"

text \<open>
  Node's \<open>path.extname\<close> (POSIX flavour): trailing separators are ignored, the last path
  component is taken, and the extension runs from its last dot to its end. It is empty when
  the component has no dot, when its only dot is its first character, and for \<open>..\<close>.
\<close>

definition path_extname :: "string \<Rightarrow> string" where
  "path_extname p =
     (let q = rev (dropWhile (\<lambda>c. c = CHR ''/'') (rev p));
          b = rev (takeWhile (\<lambda>c. c \<noteq> CHR ''/'') (rev q));
          e = rev (takeWhile (\<lambda>c. c \<noteq> CHR ''.'') (rev b))
      in if length e = length b \<or> Suc (length e) = length b \<or> b = ''..'' then []
         else CHR ''.'' # e)"

text \<open>
  \<open>xs[i]\<close> on a JavaScript array: \<open>undefined\<close> (here \<open>None\<close>) outside the array.
\<close>

definition js_index :: "'a list \<Rightarrow> int \<Rightarrow> 'a option" where
  "js_index xs i = (if 0 \<le> i \<and> i < int (length xs) then Some (xs ! nat i) else None)"

text \<open>
  \<open>xs[i] = v\<close> on a JavaScript array whose elements may be \<open>null\<close>: an index inside the
  array overwrites; an index past its end, up to the largest array index \<open>2^32 - 2\<close>,
  extends it with holes, which the database driver writes as \<open>NULL\<close>. Any other integer
  sets a named property instead: the elements stay as they are, the property is not written
  to the array column, and the prompts read the indices of the questions only.
\<close>

definition js_array_set :: "'a option list \<Rightarrow> int \<Rightarrow> 'a \<Rightarrow> 'a option list" where
  "js_array_set xs i v =
     (if 0 \<le> i \<and> nat i < length xs then xs[nat i := Some v]
      else if 0 \<le> i \<and> i < 2 ^ 32 - 1 then xs @ replicate (nat i - length xs) None @ [Some v]
      else xs)"

section \<open>The AI collaborator\<close>

text \<open>
  What one \<open>axios.post\<close> to the text-generation service gives. \<open>Call_Failed\<close>: the call
  throws (network error, timeout, error status). \<open>Reply cs\<close>: it returns, and \<open>cs\<close> is
  \<open>response.data.candidates\<close>, empty when \<open>data\<close>, \<open>candidates\<close> or its first element is
  missing. For the first candidate, \<open>Text t\<close>: \<open>content.parts[0].text\<close> is the string \<open>t\<close>;
  \<open>No_Text\<close>: that read gives \<open>undefined\<close>; \<open>Unreadable\<close>: that read throws.
  The prompt only goes out to the service; the reply is an input of the model.
\<close>

datatype candidate = Unreadable | No_Text | Text string

datatype api_reply = Call_Failed | Reply "candidate list"

text \<open>A JSON value, as \<open>JSON.parse\<close> returns it. The handlers never look into a number.\<close>

datatype json =
    JNull
  | JBool bool
  | JNumber int
  | JString string
  | JArray "json list"
  | JObject "(string \<times> json) list"

definition fallback_questions :: "string list" where
  "fallback_questions =
     [''Tell me about yourself and your experience relevant to this role.'',
      ''What interests you most about this position?'',
      ''Describe a challenging project you worked on and how you overcame obstacles.'',
      ''How do you stay updated with the latest technologies in your field?'',
      ''Where do you see yourself in 5 years?'']"

text \<open>\<open>text.split('\n').filter(q => q.trim().length > 0)\<close>: the lines that are not blank.\<close>

definition question_lines :: "string \<Rightarrow> string list" where
  "question_lines t = filter (\<lambda>q. length (js_trim q) > 0) (js_split (CHR 0x0A) t)"

text \<open>
  \<open>generateInterviewQuestions\<close>. \<open>JSON_parse\<close> is JavaScript's \<open>JSON.parse\<close>, \<open>None\<close> where it
  throws. Building the prompt calls \<open>focusAreas.join\<close>, which throws unless \<open>focusAreas\<close> is
  an array; every exception inside the outer \<open>try\<close> ends in the fallback list.
\<close>

definition generateInterviewQuestions :: "(string \<Rightarrow> json option) \<Rightarrow> json \<Rightarrow> api_reply \<Rightarrow> json" where
  "generateInterviewQuestions JSON_parse focusAreas r =
     (case focusAreas of
        JArray fa \<Rightarrow>
          (case r of
             Call_Failed \<Rightarrow> JArray (map JString fallback_questions)
           | Reply [] \<Rightarrow> JArray (map JString fallback_questions)
           | Reply (Text t # cs) \<Rightarrow>
               (case JSON_parse t of
                  Some v \<Rightarrow> v
                | None \<Rightarrow> JArray (map JString (question_lines t)))
           | Reply (c # cs) \<Rightarrow> JArray (map JString fallback_questions))
      | _ \<Rightarrow> JArray (map JString fallback_questions))"

definition feedback_placeholder :: string where
  "feedback_placeholder =
     ''Thank you for completing the interview! We'' @ [CHR 0x27] @
     ''ll review your responses and provide detailed feedback shortly.''"

text \<open>
  \<open>generateInterviewFeedback\<close>: the text of the first candidate, \<open>undefined\<close> (\<open>None\<close>) when
  the candidate has none, the placeholder on every failure.
\<close>

fun generateInterviewFeedback :: "api_reply \<Rightarrow> string option" where
  "generateInterviewFeedback Call_Failed = Some feedback_placeholder"
| "generateInterviewFeedback (Reply []) = Some feedback_placeholder"
| "generateInterviewFeedback (Reply (Text t # cs)) = Some t"
| "generateInterviewFeedback (Reply (No_Text # cs)) = None"
| "generateInterviewFeedback (Reply (Unreadable # cs)) = Some feedback_placeholder"

text \<open>
  \<open>calculateInterviewScore\<close>: the first run of digits of the reply (\<open>'75'\<close> when there is
  none), parsed and clamped; 75 when the call fails, when there is no candidate, and when
  reading or matching the text throws.
\<close>

fun calculateInterviewScore :: "api_reply \<Rightarrow> int" where
  "calculateInterviewScore Call_Failed = 75"
| "calculateInterviewScore (Reply []) = 75"
| "calculateInterviewScore (Reply (Text t # cs)) =
     max 1 (min 100 (parseInt (case match_digits t of Some d \<Rightarrow> d | None \<Rightarrow> ''75'')))"
| "calculateInterviewScore (Reply (No_Text # cs)) = 75"
| "calculateInterviewScore (Reply (Unreadable # cs)) = 75"

section \<open>The session table\<close>

text \<open>
  A \<open>TEXT[]\<close> column: a list whose elements are strings or \<open>NULL\<close>. A row of
  \<open>interview_sessions\<close> has the columns of the table; a nullable column that the handlers
  leave unset is \<open>None\<close>. The table maps the primary key \<open>id\<close> to its row, and \<open>next_id\<close>
  is the value the \<open>SERIAL\<close> sequence hands out next.
\<close>

type_synonym text_array = "string option list"

record interview_session =
  user_id :: int
  resume_url :: string
  resume_text :: string
  jd_text :: string
  focus_areas :: "text_array option"
  difficulty :: string
  role_type :: "string option"
  feedback :: "string option"
  score :: "int option"
  questions_asked :: "text_array option"
  answers_given :: "text_array option"
  created_at :: nat
  completed_at :: "nat option"

record database =
  interview_sessions :: "int \<rightharpoonup> interview_session"
  next_id :: int

text \<open>
  How a query parameter reaches a \<open>TEXT[]\<close> column; the result is the value of the column,
  or \<open>None\<close> when the statement fails. \<open>null\<close> is stored as \<open>NULL\<close>, and an array of strings
  and nulls element by element. What the driver and the database make of any other value
  (numbers and objects turned into text, nested arrays, a string read as an array literal)
  is not decided by this program: it is the parameter \<open>pg_other\<close>.
\<close>

fun pg_element :: "json \<Rightarrow> string option option" where
  "pg_element (JString s) = Some (Some s)"
| "pg_element JNull = Some None"
| "pg_element _ = None"

definition pg_text_array :: "(json \<Rightarrow> text_array option option) \<Rightarrow> json \<Rightarrow> text_array option option" where
  "pg_text_array pg_other v =
     (case v of
        JNull \<Rightarrow> Some None
      | JArray xs \<Rightarrow>
          (if list_all (\<lambda>x. pg_element x \<noteq> None) xs
           then Some (Some (map (\<lambda>x. the (pg_element x)) xs))
           else pg_other v)
      | _ \<Rightarrow> pg_other v)"

section \<open>Responses\<close>

record session_view =
  view_id :: int
  view_jd_text :: string
  view_difficulty :: string
  view_role_type :: "string option"
  view_questions_asked :: "text_array option"
  view_answers_given :: "text_array option"
  view_feedback :: "string option"
  view_score :: "int option"
  view_created_at :: nat
  view_completed_at :: "nat option"
  view_is_completed :: bool

text \<open>
  The JSON bodies the routes send, by status. \<open>Answer_Recorded next current total\<close> is the
  200 body with \<open>completed: false\<close>; its \<open>percentage\<close>, a rounded floating-point quotient, is
  left out. \<open>Interview_Completed feedback score\<close> is the 200 body with \<open>completed: true\<close>
  and \<open>next_question: null\<close>. \<open>Session_Started id questions difficulty\<close> is the 200 body
  of the start route; its \<open>total_questions\<close> and \<open>estimated_duration\<close> are computed from
  \<open>questions\<close> alone (\<open>questions.length\<close>, and three and five times it), so these three
  values determine the body.
  \<open>Upload_Rejected\<close>: the upload filter refused the file and the request never reached the
  handler. \<open>Server_Error\<close> is the 500 body of a handler's \<open>catch\<close>; failures of the
  database itself are not part of the model.
\<close>

datatype response =
    Validation_Errors
  | Not_Found string
  | Server_Error string
  | Upload_Rejected
  | Answer_Recorded "string option option" int int
  | Interview_Completed "string option" int
  | Session_Started int json string
  | Session_Details session_view

section \<open>POST /answer\<close>

record answer_body =
  session_id :: int
  answer :: string
  question_index :: int

text \<open>
  The body of a request whose \<open>session_id\<close> and \<open>question_index\<close> are JSON integers, as the
  client sends them; the handler's \<open>question_index + 1\<close> is exact on them below \<open>2^53\<close>.
  The check \<open>isInt()\<close> converts nothing: a numeric string, which it lets through as well,
  reaches the handler as a string and is not a value of this record. In the validation
  chain only the answer is left to test: it is trimmed in place by the sanitizer and
  must not be empty.
\<close>

definition answer_validation :: "answer_body \<Rightarrow> answer_body option" where
  "answer_validation b =
     (if js_trim (answer b) = [] then None else Some (b\<lparr>answer := js_trim (answer b)\<rparr>))"

definition session_not_found :: string where
  "session_not_found = ''Interview session not found''"

text \<open>\<open>session.questions_asked || []\<close> and \<open>session.answers_given || []\<close>.\<close>

definition questions_of :: "interview_session \<Rightarrow> text_array" where
  "questions_of session = (case questions_asked session of None \<Rightarrow> [] | Some qs \<Rightarrow> qs)"

definition answers_of :: "interview_session \<Rightarrow> text_array" where
  "answers_of session = (case answers_given session of None \<Rightarrow> [] | Some as \<Rightarrow> as)"

text \<open>
  The handler proper, from the destructuring of the validated body on. \<open>feedback_reply\<close>
  and \<open>score_reply\<close> are what the collaborator answers to the two calls of the completion
  path, \<open>now\<close> is \<open>CURRENT_TIMESTAMP\<close>.
\<close>

definition answer_handler ::
    "answer_body \<Rightarrow> int \<Rightarrow> api_reply \<Rightarrow> api_reply \<Rightarrow> nat \<Rightarrow> database \<Rightarrow> response \<times> database" where
  "answer_handler b userId feedback_reply score_reply now db =
     (case interview_sessions db (session_id b) of
        None \<Rightarrow> (Not_Found session_not_found, db)
      | Some session \<Rightarrow>
          if user_id session \<noteq> userId then (Not_Found session_not_found, db)
          else
            let questions = questions_of session;
                answers = js_array_set (answers_of session) (question_index b) (answer b);
                session1 = session\<lparr>answers_given := Some answers\<rparr>;
                db1 = db\<lparr>interview_sessions := (interview_sessions db)(session_id b \<mapsto> session1)\<rparr>
            in if question_index b \<ge> int (length questions) - 1 then
                 let fb = generateInterviewFeedback feedback_reply;
                     sc = calculateInterviewScore score_reply;
                     session2 = session1\<lparr>feedback := fb, score := Some sc, completed_at := Some now\<rparr>
                 in (Interview_Completed fb sc,
                     db1\<lparr>interview_sessions := (interview_sessions db1)(session_id b \<mapsto> session2)\<rparr>)
               else
                 (Answer_Recorded (js_index questions (question_index b + 1))
                    (question_index b + 1) (int (length questions)),
                  db1))"

definition post_answer ::
    "answer_body \<Rightarrow> int \<Rightarrow> api_reply \<Rightarrow> api_reply \<Rightarrow> nat \<Rightarrow> database \<Rightarrow> response \<times> database" where
  "post_answer b userId feedback_reply score_reply now db =
     (case answer_validation b of
        None \<Rightarrow> (Validation_Errors, db)
      | Some b' \<Rightarrow> answer_handler b' userId feedback_reply score_reply now db)"

section \<open>GET /session/:id\<close>

definition get_session :: "int \<Rightarrow> int \<Rightarrow> database \<Rightarrow> response" where
  "get_session sid userId db =
     (case interview_sessions db sid of
        None \<Rightarrow> Not_Found session_not_found
      | Some session \<Rightarrow>
          if user_id session \<noteq> userId then Not_Found session_not_found
          else Session_Details
                 \<lparr>view_id = sid,
                  view_jd_text = jd_text session,
                  view_difficulty = difficulty session,
                  view_role_type = role_type session,
                  view_questions_asked = questions_asked session,
                  view_answers_given = answers_given session,
                  view_feedback = feedback session,
                  view_score = score session,
                  view_created_at = created_at session,
                  view_completed_at = completed_at session,
                  view_is_completed = (completed_at session \<noteq> None)\<rparr>)"

section \<open>POST /start\<close>

text \<open>
  The uploaded resume as the upload middleware hands it over: the client's file name, the
  name it was stored under, and \<open>library_text\<close>, what the extraction library chosen by the
  extension (\<open>pdfParse\<close>, \<open>mammoth\<close>, \<open>readFileSync\<close>) yields for the stored file, \<open>None\<close>
  when it throws.
\<close>

record upload =
  originalname :: string
  filename :: string
  library_text :: "string option"

text \<open>The text fields of the multipart form; \<open>None\<close> is a field that was not sent.\<close>

record start_body =
  body_jd_text :: "string option"
  body_focus_areas :: "string option"
  body_focus_areas_raw :: "string option"
  body_difficulty :: "string option"
  body_role_type :: "string option"

definition allowedTypes :: "string list" where
  "allowedTypes = [''.pdf'', ''.doc'', ''.docx'', ''.txt'']"

definition fileFilter :: "string \<Rightarrow> bool" where
  "fileFilter name = (toLowerCase (path_extname name) \<in> set allowedTypes)"

text \<open>
  \<open>extractTextFromFile\<close>: \<open>None\<close> is the error \<open>Failed to extract text from file\<close>, thrown
  from the \<open>catch\<close> for a failing library and for an unsupported extension alike.
\<close>

definition extractTextFromFile :: "upload \<Rightarrow> string option" where
  "extractTextFromFile f =
     (let ext = toLowerCase (path_extname (originalname f))
      in if ext = ''.pdf'' then library_text f
         else if ext = ''.docx'' then library_text f
         else if ext = ''.txt'' then library_text f
         else None)"

text \<open>
  The validation chain: \<open>jd_text\<close> is trimmed in place and must not be empty;
  \<open>focus_areas\<close>, when sent, must parse to a JSON array; \<open>difficulty\<close>, when sent, must be
  one of the three levels; \<open>role_type\<close>, a form field, is a string whenever it is sent.
\<close>

definition start_validation :: "(string \<Rightarrow> json option) \<Rightarrow> start_body \<Rightarrow> start_body option" where
  "start_validation JSON_parse b =
     (let jd = (case body_jd_text b of None \<Rightarrow> [] | Some t \<Rightarrow> js_trim t);
          focus_ok = (case body_focus_areas b of
                        None \<Rightarrow> True
                      | Some t \<Rightarrow> (case JSON_parse t of Some (JArray xs) \<Rightarrow> True | _ \<Rightarrow> False));
          difficulty_ok = (case body_difficulty b of
                             None \<Rightarrow> True
                           | Some d \<Rightarrow> d \<in> set [''beginner'', ''intermediate'', ''advanced''])
      in if jd \<noteq> [] \<and> focus_ok \<and> difficulty_ok then Some (b\<lparr>body_jd_text := Some jd\<rparr>)
         else None)"

definition start_failed :: string where
  "start_failed = ''Failed to start interview session''"

text \<open>
  The handler reads the focus areas from the body field \<open>focus_areas_raw\<close> (default: the
  empty array), parsing it when it is there. It extracts the resume, inserts the row,
  generates the questions, stores them and answers; an exception at any step ends in the
  500 response, with what was written before it left in the table. Building the answer
  reads \<open>questions.length\<close>, which throws for \<open>null\<close>.
\<close>

definition focus_areas_of :: "(string \<Rightarrow> json option) \<Rightarrow> start_body \<Rightarrow> json" where
  "focus_areas_of JSON_parse b =
     (case body_focus_areas_raw b of
        None \<Rightarrow> JArray []
      | Some t \<Rightarrow> (case JSON_parse t of Some v \<Rightarrow> v | None \<Rightarrow> JArray []))"

definition start_handler ::
    "(string \<Rightarrow> json option) \<Rightarrow> (json \<Rightarrow> text_array option option) \<Rightarrow> start_body \<Rightarrow> upload option
       \<Rightarrow> int \<Rightarrow> api_reply \<Rightarrow> nat \<Rightarrow> database \<Rightarrow> response \<times> database" where
  "start_handler JSON_parse pg_other b file userId questions_reply now db =
     (let focus = focus_areas_of JSON_parse b;
          level = (case body_difficulty b of None \<Rightarrow> ''intermediate'' | Some d \<Rightarrow> d);
          resume = (case file of
                      None \<Rightarrow> Some ([], [])
                    | Some f \<Rightarrow> (case extractTextFromFile f of
                                   None \<Rightarrow> None
                                 | Some t \<Rightarrow> Some (''/uploads/resumes/'' @ filename f, t)))
      in case resume of
           None \<Rightarrow> (Server_Error start_failed, db)
         | Some (resumeUrl, resumeText) \<Rightarrow>
             (case pg_text_array pg_other focus of
                None \<Rightarrow> (Server_Error start_failed, db)
              | Some fa \<Rightarrow>
                  let sessionId = next_id db;
                      row = \<lparr>user_id = userId, resume_url = resumeUrl, resume_text = resumeText,
                             jd_text = (case body_jd_text b of None \<Rightarrow> [] | Some t \<Rightarrow> t),
                             focus_areas = fa, difficulty = level, role_type = body_role_type b,
                             feedback = None, score = None, questions_asked = None,
                             answers_given = None, created_at = now, completed_at = None\<rparr>;
                      db1 = db\<lparr>interview_sessions := (interview_sessions db)(sessionId \<mapsto> row),
                               next_id := sessionId + 1\<rparr>;
                      questions = generateInterviewQuestions JSON_parse focus questions_reply
                  in (case pg_text_array pg_other questions of
                        None \<Rightarrow> (Server_Error start_failed, db1)
                      | Some qs \<Rightarrow>
                          let db2 = db1\<lparr>interview_sessions :=
                                      (interview_sessions db1)(sessionId \<mapsto> row\<lparr>questions_asked := qs\<rparr>)\<rparr>
                          in (case questions of
                                JNull \<Rightarrow> (Server_Error start_failed, db2)
                              | _ \<Rightarrow> (Session_Started sessionId questions level, db2)))))"

text \<open>The route: the upload filter, then the validation chain, then the handler.\<close>

definition post_start ::
    "(string \<Rightarrow> json option) \<Rightarrow> (json \<Rightarrow> text_array option option) \<Rightarrow> start_body \<Rightarrow> upload option
       \<Rightarrow> int \<Rightarrow> api_reply \<Rightarrow> nat \<Rightarrow> database \<Rightarrow> response \<times> database" where
  "post_start JSON_parse pg_other b file userId questions_reply now db =
     (if (case file of None \<Rightarrow> False | Some f \<Rightarrow> \<not> fileFilter (originalname f))
      then (Upload_Rejected, db)
      else (case start_validation JSON_parse b of
              None \<Rightarrow> (Validation_Errors, db)
            | Some b' \<Rightarrow> start_handler JSON_parse pg_other b' file userId questions_reply now db))"

section \<open>Example sessions\<close>

text \<open>
  User 7 owns session 1, which has three questions. In \<open>active_db\<close> the first question is
  answered and the session is Active; in \<open>completed_db\<close> all three are answered and the
  session is Completed, with feedback, a score and a completion time.
\<close>

definition active_session :: interview_session where
  "active_session =
     \<lparr>user_id = 7, resume_url = [], resume_text = [], jd_text = ''Backend engineer role'',
      focus_areas = Some [], difficulty = ''beginner'', role_type = None, feedback = None,
      score = None, questions_asked = Some [Some ''Q0'', Some ''Q1'', Some ''Q2''],
      answers_given = Some [Some ''first''], created_at = 10, completed_at = None\<rparr>"

definition active_db :: database where
  "active_db = \<lparr>interview_sessions = [1 \<mapsto> active_session], next_id = 2\<rparr>"

definition completed_session :: interview_session where
  "completed_session =
     active_session\<lparr>answers_given := Some [Some ''first'', Some ''second'', Some ''third''],
                    feedback := Some ''Well done'', score := Some 80, completed_at := Some 15\<rparr>"

definition completed_db :: database where
  "completed_db = \<lparr>interview_sessions = [1 \<mapsto> completed_session], next_id = 2\<rparr>"

text \<open>A session whose question list is empty, as the start route stores it for an empty reply.\<close>

definition empty_session :: interview_session where
  "empty_session = active_session\<lparr>questions_asked := Some [], answers_given := None\<rparr>"

definition empty_db :: database where
  "empty_db = \<lparr>interview_sessions = [1 \<mapsto> empty_session], next_id = 2\<rparr>"

definition fresh_db :: database where
  "fresh_db = \<lparr>interview_sessions = Map.empty, next_id = 1\<rparr>"

definition example_start :: start_body where
  "example_start =
     \<lparr>body_jd_text = Some ''Backend engineer role'', body_focus_areas = None,
      body_focus_areas_raw = None, body_difficulty = Some ''beginner'', body_role_type = None\<rparr>"

definition doc_resume :: upload where
  "doc_resume = \<lparr>originalname = ''cv.doc'', filename = ''resume-7-1.doc'', library_text = None\<rparr>"

section \<open>Scoring\<close>

lemma match_digits_None: "match_digits t = None \<longleftrightarrow> (\<forall>c \<in> set t. \<not> is_digit c)"
proof (cases "dropWhile (\<lambda>c. \<not> is_digit c) t")
  case Nil
  then have none: "\<forall>c \<in> set t. \<not> is_digit c"
    using dropWhile_eq_Nil_conv [of "\<lambda>c. \<not> is_digit c" t] by simp
  have "match_digits t = None"
    unfolding match_digits_def Nil by simp
  with none show ?thesis by simp
next
  case (Cons x xs)
  then have "is_digit x" using hd_dropWhile [of "\<lambda>c. \<not> is_digit c" t] by simp
  moreover have "\<not> (\<forall>c \<in> set t. \<not> is_digit c)"
    using Cons dropWhile_eq_Nil_conv [of "\<lambda>c. \<not> is_digit c" t] by simp
  ultimately show ?thesis using Cons by (simp add: match_digits_def)
qed

lemma score_range: "1 \<le> calculateInterviewScore r \<and> calculateInterviewScore r \<le> 100"
  by (induction r rule: calculateInterviewScore.induct) simp_all

text \<open>
  C4. When the call to the AI collaborator fails (it throws, it returns no candidate, or the
  candidate's text cannot be read), or when the text of the reply contains no digit, and so
  no integer to parse, \<open>calculateInterviewScore\<close> returns exactly 75.
\<close>

theorem score_default_on_failure:
  assumes "r = Call_Failed \<or> r = Reply [] \<or> r = Reply (Unreadable # cs) \<or> r = Reply (No_Text # cs)
             \<or> (r = Reply (Text t # cs) \<and> (\<forall>c \<in> set t. \<not> is_digit c))"
  shows "calculateInterviewScore r = 75"
proof -
  have "calculateInterviewScore (Reply (Text t # cs)) = 75" if "\<forall>c \<in> set t. \<not> is_digit c"
  proof -
    from that have "match_digits t = None" by (simp add: match_digits_None)
    then show ?thesis by (simp add: parseInt_def digit_val_def)
  qed
  with assms show ?thesis by auto
qed

theorem score_default_on_failure_witness:
  "calculateInterviewScore (Reply [Text ''Excellent work'']) = 75 \<and> calculateInterviewScore Call_Failed = 75"
proof (rule conjI)
  have "\<forall>c \<in> set ''Excellent work''. \<not> is_digit c" by (simp add: is_digit_def)
  then show "calculateInterviewScore (Reply [Text ''Excellent work'']) = 75"
    using score_default_on_failure [where r = "Reply [Text ''Excellent work'']" and t = "''Excellent work''" and cs = "[]"]
    by blast
  show "calculateInterviewScore Call_Failed = 75"
    using score_default_on_failure [where r = Call_Failed] by blast
qed

text \<open>
  C5. Whatever the collaborator replies, the score that \<open>calculateInterviewScore\<close> returns is
  an integer between 1 and 100; and when the reply's text holds a run of digits \<open>d\<close>, the
  score is the number \<open>d\<close> denotes, clamped into that range.
\<close>

theorem score_clamped:
  "1 \<le> calculateInterviewScore r \<and> calculateInterviewScore r \<le> 100 \<and>
   (match_digits t = Some d \<longrightarrow>
      calculateInterviewScore (Reply (Text t # cs)) = max 1 (min 100 (parseInt d)))"
  using score_range [of r] by simp

theorem score_clamped_witness:
  "match_digits ''I rate this 250 of 100'' = Some ''250'' \<and> parseInt ''250'' = 250 \<and>
   calculateInterviewScore (Reply [Text ''I rate this 250 of 100'']) = 100"
proof -
  have m: "match_digits ''I rate this 250 of 100'' = Some ''250''"
    by (simp add: match_digits_def is_digit_def)
  have p: "parseInt ''250'' = 250"
    by (simp add: parseInt_def digit_val_def)
  from score_clamped [of _ "''I rate this 250 of 100''" "''250''" "[]"] m
  have "calculateInterviewScore (Reply [Text ''I rate this 250 of 100'']) = max 1 (min 100 (parseInt ''250''))"
    by blast
  with m p show ?thesis by simp
qed

section \<open>Answer submission\<close>

lemma post_answer_owned:
  assumes "interview_sessions db (session_id b) = Some s" and "user_id s = u"
    and "js_trim (answer b) \<noteq> []"
  shows "post_answer b u fr sr now db =
     (if question_index b \<ge> int (length (questions_of s)) - 1 then
        (Interview_Completed (generateInterviewFeedback fr) (calculateInterviewScore sr),
         db\<lparr>interview_sessions := (interview_sessions db)(session_id b \<mapsto>
              s\<lparr>answers_given := Some (js_array_set (answers_of s) (question_index b) (js_trim (answer b))),
                feedback := generateInterviewFeedback fr,
                score := Some (calculateInterviewScore sr),
                completed_at := Some now\<rparr>)\<rparr>)
      else
        (Answer_Recorded (js_index (questions_of s) (question_index b + 1))
           (question_index b + 1) (int (length (questions_of s))),
         db\<lparr>interview_sessions := (interview_sessions db)(session_id b \<mapsto>
              s\<lparr>answers_given := Some (js_array_set (answers_of s) (question_index b) (js_trim (answer b)))\<rparr>)\<rparr>))"
  using assms by (simp add: post_answer_def answer_validation_def answer_handler_def Let_def)

lemma post_answer_invalid:
  "js_trim (answer b) = [] \<Longrightarrow> post_answer b u fr sr now db = (Validation_Errors, db)"
  by (simp add: post_answer_def answer_validation_def)

lemma post_answer_missing:
  assumes "interview_sessions db (session_id b) = None" and "js_trim (answer b) \<noteq> []"
  shows "post_answer b u fr sr now db = (Not_Found session_not_found, db)"
  using assms by (simp add: post_answer_def answer_validation_def answer_handler_def)

lemma post_answer_foreign:
  assumes "interview_sessions db (session_id b) = Some s" and "user_id s \<noteq> u"
    and "js_trim (answer b) \<noteq> []"
  shows "post_answer b u fr sr now db = (Not_Found session_not_found, db)"
  using assms by (simp add: post_answer_def answer_validation_def answer_handler_def)

text \<open>
  C1, as amended. The handler never reads \<open>completed_at\<close>, and no response of the route is a
  \<open>SessionAlreadyCompleted\<close> error. A valid submission by the owner to a Completed session
  is processed as for an Active one: the answer is recorded at its index; below the last
  index the next-question response is sent and feedback, score and \<open>completed_at\<close> stay as
  they were; from the last index on the completion response is sent and the three fields
  are overwritten. The response is the one the same session would get if it were Active.
\<close>

theorem completed_session_processed_like_active:
  assumes "interview_sessions db (session_id b) = Some s" and "user_id s = u"
    and "js_trim (answer b) \<noteq> []" and "completed_at s = Some t"
  shows "\<exists>s'. interview_sessions (snd (post_answer b u fr sr now db)) (session_id b) = Some s'
       \<and> answers_given s' = Some (js_array_set (answers_of s) (question_index b) (js_trim (answer b)))
       \<and> (question_index b < int (length (questions_of s)) - 1 \<longrightarrow>
            fst (post_answer b u fr sr now db)
              = Answer_Recorded (js_index (questions_of s) (question_index b + 1))
                  (question_index b + 1) (int (length (questions_of s)))
            \<and> feedback s' = feedback s \<and> score s' = score s \<and> completed_at s' = Some t)
       \<and> (int (length (questions_of s)) - 1 \<le> question_index b \<longrightarrow>
            fst (post_answer b u fr sr now db)
              = Interview_Completed (generateInterviewFeedback fr) (calculateInterviewScore sr)
            \<and> feedback s' = generateInterviewFeedback fr
            \<and> score s' = Some (calculateInterviewScore sr)
            \<and> completed_at s' = Some now)
       \<and> fst (post_answer b u fr sr now db)
           = fst (post_answer b u fr sr now
                   (db\<lparr>interview_sessions := (interview_sessions db)(session_id b \<mapsto>
                        s\<lparr>feedback := None, score := None, completed_at := None\<rparr>)\<rparr>))"
proof -
  let ?a = "s\<lparr>feedback := None, score := None, completed_at := None\<rparr>"
  let ?db = "db\<lparr>interview_sessions := (interview_sessions db)(session_id b \<mapsto> ?a)\<rparr>"
  have twin: "interview_sessions ?db (session_id b) = Some ?a" by simp
  have q: "questions_of ?a = questions_of s" by (simp add: questions_of_def)
  have "user_id ?a = u" using assms(2) by simp
  note active = post_answer_owned [OF twin this assms(3), of fr sr now]
  show ?thesis
    using assms by (simp add: post_answer_owned active q)
qed

theorem completed_session_processed_like_active_witness:
  "\<exists>s'. interview_sessions
          (snd (post_answer \<lparr>session_id = 1, answer = ''changed'', question_index = 0\<rparr> 7 Call_Failed Call_Failed 20 completed_db)) 1
        = Some s'
      \<and> answers_given s' = Some [Some ''changed'', Some ''second'', Some ''third'']
      \<and> fst (post_answer \<lparr>session_id = 1, answer = ''changed'', question_index = 0\<rparr> 7 Call_Failed Call_Failed 20 completed_db)
          = Answer_Recorded (Some (Some ''Q1'')) 1 3
      \<and> score s' = Some 80 \<and> completed_at s' = Some 15"
proof -
  let ?b = "\<lparr>session_id = 1, answer = ''changed'', question_index = 0\<rparr>"
  have h1: "interview_sessions completed_db (session_id ?b) = Some completed_session"
    by (simp add: completed_db_def)
  have h2: "user_id completed_session = 7" by (simp add: completed_session_def active_session_def)
  have t: "js_trim ''changed'' = ''changed''" by (simp add: js_trim_def is_space_def)
  then have h3: "js_trim (answer ?b) \<noteq> []" by simp
  have h4: "completed_at completed_session = Some 15" by (simp add: completed_session_def)
  have q: "questions_of completed_session = [Some ''Q0'', Some ''Q1'', Some ''Q2'']"
    by (simp add: questions_of_def completed_session_def active_session_def)
  have a: "js_array_set (answers_of completed_session) 0 ''changed''
             = [Some ''changed'', Some ''second'', Some ''third'']"
    by (simp add: answers_of_def completed_session_def js_array_set_def)
  have f: "score completed_session = Some 80" by (simp add: completed_session_def)
  from completed_session_processed_like_active [OF h1 h2 h3 h4, of Call_Failed Call_Failed 20]
  show ?thesis by (auto simp add: q t a f js_index_def)
qed

text \<open>
  C1 as stated fails: session 1 of \<open>completed_db\<close> is Completed, and a further submission
  at index 0 is answered with the next question, and replaces the stored first answer.
\<close>

theorem completed_session_accepts_answer:
  "fst (post_answer \<lparr>session_id = 1, answer = ''changed'', question_index = 0\<rparr> 7 Call_Failed Call_Failed 20 completed_db)
     = Answer_Recorded (Some (Some ''Q1'')) 1 3
   \<and> map_option completed_at (interview_sessions completed_db 1) = Some (Some 15)
   \<and> map_option answers_given (interview_sessions completed_db 1)
       = Some (Some [Some ''first'', Some ''second'', Some ''third''])
   \<and> map_option answers_given
        (interview_sessions
          (snd (post_answer \<lparr>session_id = 1, answer = ''changed'', question_index = 0\<rparr> 7 Call_Failed Call_Failed 20 completed_db)) 1)
       = Some (Some [Some ''changed'', Some ''second'', Some ''third''])"
  by (simp add: post_answer_def answer_validation_def answer_handler_def Let_def
        completed_db_def completed_session_def active_session_def questions_of_def answers_of_def
        js_array_set_def js_index_def js_trim_def is_space_def)

text \<open>
  C2, as amended. For an Active session with \<open>N\<close> questions, a valid submission by the
  owner sets \<open>completed_at\<close> if and only if \<open>question_index \<ge> N - 1\<close>, whatever answers the
  other indices hold; it then stores the generated feedback and score with it and sends
  the completion response. Below \<open>N - 1\<close> the three fields stay as they were. A Completed
  session stays Completed, so a session becomes Completed at most once; a later submission
  at an index \<open>\<ge> N - 1\<close> sets the three fields again.
\<close>

theorem completion_iff_index_reaches_last:
  assumes "interview_sessions db (session_id b) = Some s" and "user_id s = u"
    and "js_trim (answer b) \<noteq> []"
  shows "\<exists>s'. interview_sessions (snd (post_answer b u fr sr now db)) (session_id b) = Some s'
       \<and> (completed_at s = None \<longrightarrow>
            (completed_at s' \<noteq> None \<longleftrightarrow> int (length (questions_of s)) - 1 \<le> question_index b))
       \<and> (completed_at s \<noteq> None \<longrightarrow> completed_at s' \<noteq> None)
       \<and> (int (length (questions_of s)) - 1 \<le> question_index b \<longrightarrow>
            fst (post_answer b u fr sr now db)
              = Interview_Completed (generateInterviewFeedback fr) (calculateInterviewScore sr)
            \<and> completed_at s' = Some now
            \<and> feedback s' = generateInterviewFeedback fr
            \<and> score s' = Some (calculateInterviewScore sr))
       \<and> (question_index b < int (length (questions_of s)) - 1 \<longrightarrow>
            feedback s' = feedback s \<and> score s' = score s \<and> completed_at s' = completed_at s)"
  using assms by (simp add: post_answer_owned)

theorem completion_iff_index_reaches_last_witness:
  "\<exists>s'. interview_sessions
          (snd (post_answer \<lparr>session_id = 1, answer = ''third'', question_index = 2\<rparr> 7 Call_Failed Call_Failed 20 active_db)) 1
        = Some s'
      \<and> completed_at s' = Some 20 \<and> score s' = Some 75 \<and> feedback s' = Some feedback_placeholder"
proof -
  let ?b = "\<lparr>session_id = 1, answer = ''third'', question_index = 2\<rparr>"
  have h1: "interview_sessions active_db (session_id ?b) = Some active_session"
    by (simp add: active_db_def)
  have h2: "user_id active_session = 7" by (simp add: active_session_def)
  have h3: "js_trim (answer ?b) \<noteq> []" by (simp add: js_trim_def is_space_def)
  have q: "questions_of active_session = [Some ''Q0'', Some ''Q1'', Some ''Q2'']"
    by (simp add: questions_of_def active_session_def)
  from completion_iff_index_reaches_last [OF h1 h2 h3, of Call_Failed Call_Failed 20]
  show ?thesis by (auto simp add: q)
qed

text \<open>
  C2 as stated fails: session 1 of \<open>active_db\<close> is Active with three questions, of which
  only the first is answered. A submission at index 7, which is not \<open>N - 1 = 2\<close>, completes
  it, and the questions at indices 1 and 2 are left without an answer. A submission at
  index 2 completes it as well, and the question at index 1 is left without an answer.
\<close>

theorem completion_without_all_answers:
  "map_option completed_at (interview_sessions active_db 1) = Some None
   \<and> map_option questions_asked (interview_sessions active_db 1) = Some (Some [Some ''Q0'', Some ''Q1'', Some ''Q2''])
   \<and> fst (post_answer \<lparr>session_id = 1, answer = ''yes'', question_index = 7\<rparr> 7 Call_Failed Call_Failed 20 active_db)
       = Interview_Completed (Some feedback_placeholder) 75
   \<and> map_option completed_at
        (interview_sessions
          (snd (post_answer \<lparr>session_id = 1, answer = ''yes'', question_index = 7\<rparr> 7 Call_Failed Call_Failed 20 active_db)) 1)
       = Some (Some 20)
   \<and> map_option answers_given
        (interview_sessions
          (snd (post_answer \<lparr>session_id = 1, answer = ''yes'', question_index = 7\<rparr> 7 Call_Failed Call_Failed 20 active_db)) 1)
       = Some (Some [Some ''first'', None, None, None, None, None, None, Some ''yes''])
   \<and> fst (post_answer \<lparr>session_id = 1, answer = ''third'', question_index = 2\<rparr> 7 Call_Failed Call_Failed 20 active_db)
       = Interview_Completed (Some feedback_placeholder) 75
   \<and> map_option answers_given
        (interview_sessions
          (snd (post_answer \<lparr>session_id = 1, answer = ''third'', question_index = 2\<rparr> 7 Call_Failed Call_Failed 20 active_db)) 1)
       = Some (Some [Some ''first'', None, Some ''third''])"
  by (simp add: post_answer_def answer_validation_def answer_handler_def Let_def
        active_db_def active_session_def questions_of_def answers_of_def
        js_array_set_def js_trim_def is_space_def numeral_eq_Suc)

text \<open>
  Below the last index, a valid submission by the owner of an Active session whose index
  is a number is answered with \<open>questions[i + 1]\<close> and the progress \<open>i + 1\<close> of \<open>N\<close>, and
  \<open>completed_at\<close> stays unset.
\<close>

lemma numeric_index_returns_next:
  assumes "interview_sessions db (session_id b) = Some s" and "user_id s = u"
    and "js_trim (answer b) \<noteq> []" and "completed_at s = None"
    and "question_index b < int (length (questions_of s)) - 1"
  shows "fst (post_answer b u fr sr now db) =
           Answer_Recorded (js_index (questions_of s) (question_index b + 1))
             (question_index b + 1) (int (length (questions_of s)))
         \<and> map_option completed_at (interview_sessions (snd (post_answer b u fr sr now db)) (session_id b))
             = Some None
         \<and> (- 1 \<le> question_index b \<longrightarrow>
              js_index (questions_of s) (question_index b + 1)
                = Some (questions_of s ! nat (question_index b + 1)))"
  using assms by (simp add: post_answer_owned js_index_def)

text \<open>
  C7. When the session id is absent from the table (\<open>db1\<close>) or belongs to another user
  (\<open>db2\<close>), \<open>GET /session/:id\<close> answers 404 with the one fixed message and no session
  data, \<open>POST /answer\<close> answers the same in both cases (404 with that message when the
  body is valid) and changes nothing; so the caller cannot tell the two cases apart.
\<close>

theorem missing_or_foreign_session_not_found:
  assumes "interview_sessions db1 sid = None"
    and "interview_sessions db2 sid = Some s" and "user_id s \<noteq> u"
    and "session_id b = sid"
  shows "get_session sid u db1 = Not_Found session_not_found
       \<and> get_session sid u db2 = Not_Found session_not_found
       \<and> fst (post_answer b u fr sr now db1) = fst (post_answer b u fr sr now db2)
       \<and> snd (post_answer b u fr sr now db1) = db1
       \<and> snd (post_answer b u fr sr now db2) = db2
       \<and> (js_trim (answer b) \<noteq> [] \<longrightarrow>
            fst (post_answer b u fr sr now db1) = Not_Found session_not_found)"
proof (cases "js_trim (answer b) = []")
  case True
  with assms show ?thesis by (simp add: post_answer_invalid get_session_def)
next
  case False
  with assms show ?thesis
    by (simp add: post_answer_missing post_answer_foreign get_session_def)
qed

theorem missing_or_foreign_session_not_found_witness:
  "get_session 1 8 fresh_db = Not_Found session_not_found
   \<and> get_session 1 8 active_db = Not_Found session_not_found
   \<and> post_answer \<lparr>session_id = 1, answer = ''hello'', question_index = 0\<rparr> 8 Call_Failed Call_Failed 20 fresh_db
       = (Not_Found session_not_found, fresh_db)
   \<and> post_answer \<lparr>session_id = 1, answer = ''hello'', question_index = 0\<rparr> 8 Call_Failed Call_Failed 20 active_db
       = (Not_Found session_not_found, active_db)"
proof -
  let ?b = "\<lparr>session_id = 1, answer = ''hello'', question_index = 0\<rparr>"
  have h1: "interview_sessions fresh_db 1 = None" by (simp add: fresh_db_def)
  have h2: "interview_sessions active_db 1 = Some active_session" by (simp add: active_db_def)
  have h3: "user_id active_session \<noteq> 8" by (simp add: active_session_def)
  have h4: "session_id ?b = 1" by simp
  have v: "js_trim (answer ?b) \<noteq> []" by (simp add: js_trim_def is_space_def)
  from missing_or_foreign_session_not_found [OF h1 h2 h3 h4, of Call_Failed Call_Failed 20] v
  show ?thesis by (auto simp add: prod_eq_iff)
qed



text \<open>
  C10. For a session whose stored question list is null or empty, a valid submission by
  the owner at any index \<open>\<ge> -1\<close> takes the completion path: feedback and score are
  generated, stored together with \<open>completed_at\<close>, and returned in the completion response.
\<close>

theorem empty_questions_complete:
  assumes "interview_sessions db (session_id b) = Some s" and "user_id s = u"
    and "js_trim (answer b) \<noteq> []"
    and "questions_asked s = None \<or> questions_asked s = Some []"
    and "- 1 \<le> question_index b"
  shows "post_answer b u fr sr now db =
           (Interview_Completed (generateInterviewFeedback fr) (calculateInterviewScore sr),
            db\<lparr>interview_sessions := (interview_sessions db)(session_id b \<mapsto>
                 s\<lparr>answers_given := Some (js_array_set (answers_of s) (question_index b) (js_trim (answer b))),
                   feedback := generateInterviewFeedback fr,
                   score := Some (calculateInterviewScore sr),
                   completed_at := Some now\<rparr>)\<rparr>)"
proof -
  from assms(4) have "questions_of s = []" by (auto simp add: questions_of_def)
  with assms show ?thesis by (simp add: post_answer_owned)
qed

theorem empty_questions_complete_witness:
  "fst (post_answer \<lparr>session_id = 1, answer = ''hello'', question_index = 0\<rparr> 7 Call_Failed (Reply [Text ''90'']) 20 empty_db)
     = Interview_Completed (Some feedback_placeholder) 90
   \<and> map_option completed_at
        (interview_sessions
          (snd (post_answer \<lparr>session_id = 1, answer = ''hello'', question_index = 0\<rparr> 7 Call_Failed (Reply [Text ''90'']) 20 empty_db)) 1)
       = Some (Some 20)"
proof -
  let ?b = "\<lparr>session_id = 1, answer = ''hello'', question_index = 0\<rparr>"
  have h1: "interview_sessions empty_db (session_id ?b) = Some empty_session"
    by (simp add: empty_db_def)
  have h2: "user_id empty_session = 7" by (simp add: empty_session_def active_session_def)
  have h3: "js_trim (answer ?b) \<noteq> []" by (simp add: js_trim_def is_space_def)
  have h4: "questions_asked empty_session = None \<or> questions_asked empty_session = Some []"
    by (simp add: empty_session_def)
  have h5: "- 1 \<le> question_index ?b" by simp
  from empty_questions_complete [OF h1 h2 h3 h4 h5, of Call_Failed "Reply [Text ''90'']" 20]
  show ?thesis by (simp add: match_digits_def is_digit_def parseInt_def digit_val_def)
qed

section \<open>Starting a session\<close>









text \<open>
  C9. For a start request that passes validation and carries a resume whose extension is
  \<open>.doc\<close> (in any letter case), the upload filter accepts the file, text extraction fails,
  and the request ends in the 500 response with the table unchanged: no session row is
  created, the extraction coming before the insert.
\<close>

theorem doc_resume_fails_start:
  assumes "toLowerCase (path_extname (originalname f)) = ''.doc''"
    and "start_validation JSON_parse b \<noteq> None"
  shows "fileFilter (originalname f) \<and> extractTextFromFile f = None
       \<and> post_start JSON_parse pg_other b (Some f) u r now db = (Server_Error start_failed, db)"
  using assms
  by (auto simp add: fileFilter_def allowedTypes_def extractTextFromFile_def post_start_def
        start_handler_def Let_def)

theorem doc_resume_fails_start_witness:
  "fileFilter ''cv.doc'' \<and> extractTextFromFile doc_resume = None
   \<and> post_start (\<lambda>t. None) (\<lambda>v. None) example_start (Some doc_resume) 7 Call_Failed 5 fresh_db
       = (Server_Error start_failed, fresh_db)"
proof -
  have h1: "toLowerCase (path_extname (originalname doc_resume)) = ''.doc''"
    by (simp add: doc_resume_def path_extname_def toLowerCase_def lower_char_def upper_letters_def lower_letters_def)
  have h2: "start_validation (\<lambda>t. None) example_start \<noteq> None"
    by (simp add: start_validation_def example_start_def js_trim_def is_space_def)
  have n: "originalname doc_resume = ''cv.doc''" by (simp add: doc_resume_def)
  from doc_resume_fails_start [OF h1 h2, of "\<lambda>v. None" 7 Call_Failed 5 fresh_db]
  show ?thesis by (simp add: n)
qed

end
